theory Spec2Isabelle
  imports Main
begin

section \<open>Time values of the datetime library\<close>

text \<open>
  A \<open>datetime\<close> is a count of microseconds since a fixed epoch and a \<open>timedelta\<close> a
  signed count of microseconds; \<open>datetime - datetime\<close> is integer subtraction and the
  comparison of two timedeltas is the comparison of the counts. The clock reads of the
  source (\<open>datetime.utcnow()\<close>, \<open>datetime.now()\<close>) are arguments of the functions below.
\<close>

type_synonym datetime = int
type_synonym timedelta = int

datatype error = OverflowError | ValueError | AMPAPIError | OSError | SubprocessError

text \<open>
  \<open>timedelta(minutes=m)\<close>: the library normalises to days, seconds and microseconds and
  raises \<open>OverflowError\<close> when the magnitude of the day count exceeds 999999999.
\<close>

definition timedelta_minutes :: "int \<Rightarrow> error + timedelta" where
  "timedelta_minutes m =
     (if \<bar>(m * 60) div 86400\<bar> > 999999999 then Inl OverflowError
      else Inr (m * 60000000))"

text \<open>
  \<open>datetime.time\<close>, naive (no tzinfo): two values compare as the tuples
  \<open>(hour, minute, second, microsecond)\<close>.
\<close>

record time =
  hour :: nat
  minute :: nat
  second :: nat
  microsecond :: nat

definition time_le :: "time \<Rightarrow> time \<Rightarrow> bool" where
  "time_le a b =
     (hour a < hour b \<or> (hour a = hour b \<and>
       (minute a < minute b \<or> (minute a = minute b \<and>
         (second a < second b \<or> (second a = second b \<and>
           microsecond a \<le> microsecond b))))))"

definition time_hm :: "nat \<Rightarrow> nat \<Rightarrow> time" where
  "time_hm h m = \<lparr>hour = h, minute = m, second = 0, microsecond = 0\<rparr>"

subsection \<open>\<open>datetime.strptime(s, "%H:%M").time()\<close>\<close>

text \<open>
  The library compiles the format to the regular expression
  \<^verbatim>\<open>(?P<H>2[0-3]|[0-1]\d|\d):(?P<M>[0-5]\d|\d)\<close>, matches it at the start of the
  string (alternatives in order, first success wins) and raises \<open>ValueError\<close> when
  nothing matches or when text remains after the match. Strings are ASCII here.
\<close>

definition is_digit :: "char \<Rightarrow> bool" where
  "is_digit c = (c \<in> set ''0123456789'')"

definition digit_val :: "char \<Rightarrow> nat" where
  "digit_val c = of_char c - 48"

definition hour_matches :: "string \<Rightarrow> (nat \<times> string) list" where
  "hour_matches s =
     (case s of a # b # r \<Rightarrow>
        (if a = CHR ''2'' \<and> b \<in> set ''0123'' then [(20 + digit_val b, r)] else [])
      | _ \<Rightarrow> []) @
     (case s of a # b # r \<Rightarrow>
        (if a \<in> set ''01'' \<and> is_digit b then [(10 * digit_val a + digit_val b, r)] else [])
      | _ \<Rightarrow> []) @
     (case s of a # r \<Rightarrow> (if is_digit a then [(digit_val a, r)] else [])
      | _ \<Rightarrow> [])"

definition minute_matches :: "string \<Rightarrow> (nat \<times> string) list" where
  "minute_matches s =
     (case s of a # b # r \<Rightarrow>
        (if a \<in> set ''012345'' \<and> is_digit b then [(10 * digit_val a + digit_val b, r)] else [])
      | _ \<Rightarrow> []) @
     (case s of a # r \<Rightarrow> (if is_digit a then [(digit_val a, r)] else [])
      | _ \<Rightarrow> [])"

definition colon_then_minute :: "string \<Rightarrow> (nat \<times> string) list" where
  "colon_then_minute s =
     (case s of c # r \<Rightarrow> (if c = CHR '':'' then minute_matches r else []) | [] \<Rightarrow> [])"

definition strptime_HM :: "string \<Rightarrow> error + time" where
  "strptime_HM s =
     (case concat (map (\<lambda>(h, r). map (\<lambda>(m, rest). (h, m, rest)) (colon_then_minute r))
                       (hour_matches s)) of
        [] \<Rightarrow> Inl ValueError
      | (h, m, rest) # _ \<Rightarrow> if rest = [] then Inr (time_hm h m) else Inl ValueError)"

section \<open>Configuration (config.py)\<close>

record MaintenanceWindow =
  days :: "string list"
  start :: string
  end' :: string

record Config =
  amp_base_url :: string
  api_key_alias :: string
  poll_interval_seconds :: int
  idle_delay_minutes :: int
  global_player_threshold :: int
  per_instance_thresholds :: "string \<rightharpoonup> int"
  selected_instances :: "string list"
  maintenance_windows :: "MaintenanceWindow list"
  dry_run :: bool
  log_level :: string
  verify_ssl :: bool

section \<open>ShutdownDecider (monitor.py)\<close>

record ShutdownState =
  last_activity :: datetime
  shutdown_triggered :: bool

record ShutdownDecider =
  state :: ShutdownState
  config :: Config
  idle_delta :: timedelta

text \<open>
  \<open>update_config\<close> assigns \<open>self.config\<close> first; when \<open>timedelta\<close> raises, that
  assignment stays and \<open>idle_delta\<close> keeps its old value. The second component is the
  exception raised, if any.
\<close>

definition update_config :: "Config \<Rightarrow> ShutdownDecider \<Rightarrow> ShutdownDecider \<times> error option" where
  "update_config cfg d =
     (let d1 = d\<lparr>config := cfg\<rparr> in
      case timedelta_minutes (max 1 (idle_delay_minutes cfg)) of
        Inl e \<Rightarrow> (d1, Some e)
      | Inr td \<Rightarrow> (d1\<lparr>idle_delta := td\<rparr>, None))"

text \<open>The constructor: \<open>now\<close> is its read of \<open>datetime.utcnow()\<close>.\<close>

definition ShutdownDecider_init :: "datetime \<Rightarrow> Config \<Rightarrow> error + ShutdownDecider" where
  "ShutdownDecider_init now cfg =
     (case timedelta_minutes (max 1 (idle_delay_minutes cfg)) of
        Inl e \<Rightarrow> Inl e
      | Inr td \<Rightarrow> Inr \<lparr>state = \<lparr>last_activity = now, shutdown_triggered = False\<rparr>,
                       config = cfg, idle_delta = td\<rparr>)"

definition threshold_for :: "ShutdownDecider \<Rightarrow> string \<Rightarrow> int" where
  "threshold_for d instance_name =
     (case per_instance_thresholds (config d) instance_name of
        Some t \<Rightarrow> t
      | None \<Rightarrow> global_player_threshold (config d))"

text \<open>
  The observation dictionary is the list of its items in iteration order.
  \<open>above_threshold\<close> is the \<open>any(...)\<close> of the source.
\<close>

type_synonym player_counts = "(string \<times> int) list"

definition above_threshold :: "ShutdownDecider \<Rightarrow> player_counts \<Rightarrow> bool" where
  "above_threshold d player_counts =
     list_ex (\<lambda>(name, count). count > threshold_for d name) player_counts"

definition register_observation ::
  "datetime \<Rightarrow> player_counts \<Rightarrow> ShutdownDecider \<Rightarrow> ShutdownDecider \<times> bool" where
  "register_observation now player_counts d =
     (if player_counts = [] then (d, False)
      else if above_threshold d player_counts then
        (d\<lparr>state := (state d)\<lparr>last_activity := now, shutdown_triggered := False\<rparr>\<rparr>, False)
      else
        (let idle_time = now - last_activity (state d) in
         if idle_time \<ge> idle_delta d then
           (if \<not> shutdown_triggered (state d) then
              (d\<lparr>state := (state d)\<lparr>shutdown_triggered := True\<rparr>\<rparr>, True)
            else (d, False))
         else (d, False)))"

text \<open>
  A run of calls of \<open>register_observation\<close> on one decider: each element is the clock
  read and the counts of one call, and the return values are collected in order.
\<close>

fun register_observations ::
  "(datetime \<times> player_counts) list \<Rightarrow> ShutdownDecider \<Rightarrow> ShutdownDecider \<times> bool list" where
  "register_observations [] d = (d, [])"
| "register_observations ((now, player_counts) # rest) d =
     (case register_observation now player_counts d of
        (d1, fired) \<Rightarrow>
          (case register_observations rest d1 of (d2, results) \<Rightarrow> (d2, fired # results)))"

section \<open>Monitor (monitor.py)\<close>

subsection \<open>Maintenance windows\<close>

text \<open>\<open>str.lower()\<close> on ASCII strings.\<close>

definition lower_char :: "char \<Rightarrow> char" where
  "lower_char c =
     (let n = (of_char c :: nat) in if 65 \<le> n \<and> n \<le> 90 then char_of (n + 32) else c)"

definition lower :: "string \<Rightarrow> string" where
  "lower s = map lower_char s"

definition time_in_window :: "time \<Rightarrow> string \<Rightarrow> string \<Rightarrow> bool" where
  "time_in_window current start_s end_s =
     (case strptime_HM start_s of
        Inl _ \<Rightarrow> False
      | Inr start_time \<Rightarrow>
          (case strptime_HM end_s of
             Inl _ \<Rightarrow> False
           | Inr end_time \<Rightarrow>
               if time_le start_time end_time
               then time_le start_time current \<and> time_le current end_time
               else time_le start_time current \<or> time_le current end_time))"

text \<open>
  The \<open>for window in config.maintenance_windows\<close> loop; \<open>now_day\<close> is the lower-cased
  weekday abbreviation and \<open>now_time\<close> the time of day of \<open>datetime.now()\<close>.
\<close>

fun windows_loop :: "MaintenanceWindow list \<Rightarrow> string \<Rightarrow> time \<Rightarrow> bool" where
  "windows_loop [] now_day now_time = False"
| "windows_loop (window # rest) now_day now_time =
     (let ds = set (map lower (if days window = [] then [''*''] else days window)) in
      if ''*'' \<notin> ds \<and> now_day \<notin> ds then windows_loop rest now_day now_time
      else if time_in_window now_time (start window) (end' window) then True
      else windows_loop rest now_day now_time)"

text \<open>\<open>day_a\<close> is \<open>now.strftime("%a")\<close>.\<close>

definition in_maintenance_window :: "Config \<Rightarrow> string \<Rightarrow> time \<Rightarrow> bool" where
  "in_maintenance_window cfg day_a now_time =
     (if maintenance_windows cfg = [] then False
      else windows_loop (maintenance_windows cfg) (lower day_a) now_time)"

subsection \<open>The polling cycle\<close>

record Monitor =
  decider :: "ShutdownDecider option"
  shutdown_initiated :: bool

text \<open>
  What a cycle does to the outside world, in order: the request for the player counts,
  the call of the decider, the operating system's shutdown command, and
  \<open>stop_event.set()\<close>.
\<close>

datatype effect =
    FetchPlayerCounts "string list"
  | RegisterObservation player_counts
  | RunShutdownCommand
  | StopEventSet

text \<open>
  \<open>cmd\<close> is the outcome of \<open>subprocess.run(SHUTDOWN_COMMAND, check=True)\<close>: \<open>None\<close> when
  it returns, the exception otherwise. \<open>OSError\<close> and \<open>SubprocessError\<close> are caught
  and logged. The result is the monitor, the effects, and the exception that escapes.
\<close>

definition trigger_shutdown ::
  "Config \<Rightarrow> error option \<Rightarrow> Monitor \<Rightarrow> Monitor \<times> effect list \<times> error option" where
  "trigger_shutdown cfg cmd m =
     (if shutdown_initiated m then (m, [], None)
      else
        (let m1 = m\<lparr>shutdown_initiated := True\<rparr> in
         if dry_run cfg then (m1, [], None)
         else
           (case cmd of
              None \<Rightarrow> (m1, [RunShutdownCommand], None)
            | Some e \<Rightarrow>
                if e = OSError \<or> e = SubprocessError then (m1, [RunShutdownCommand], None)
                else (m1, [RunShutdownCommand], Some e))))"

text \<open>
  The reads of one cycle: the local clock (\<open>datetime.now()\<close>), the UTC clock
  (\<open>datetime.utcnow()\<close>, read once, either in the maintenance branch or by the decider),
  the answer of \<open>client.get_player_counts\<close> (an exception or the counts) and the outcome
  of the shutdown command.
\<close>

record cycle_env =
  local_day :: string
  local_time :: time
  utc_now :: datetime
  fetch_result :: "error + player_counts"
  shutdown_cmd :: "error option"

definition poll_once ::
  "Config \<Rightarrow> cycle_env \<Rightarrow> Monitor \<Rightarrow> Monitor \<times> effect list \<times> error option" where
  "poll_once cfg env m =
     (if selected_instances cfg = [] then (m, [], None)
      else if in_maintenance_window cfg (local_day env) (local_time env) then
        (case decider m of
           None \<Rightarrow> (m, [], None)
         | Some d \<Rightarrow>
             (m\<lparr>decider := Some (d\<lparr>state := (state d)\<lparr>last_activity := utc_now env\<rparr>\<rparr>)\<rparr>,
              [], None))
      else if amp_base_url cfg = [] then (m, [], Some ValueError)
      else
        (let fetch = [FetchPlayerCounts (selected_instances cfg)] in
         case fetch_result env of
           Inl e \<Rightarrow> if e = AMPAPIError then (m, fetch, None) else (m, fetch, Some e)
         | Inr player_counts \<Rightarrow>
             (case decider m of
                None \<Rightarrow> (m, fetch, None)
              | Some d \<Rightarrow>
                  (let (d1, fire) = register_observation (utc_now env) player_counts d;
                       m1 = m\<lparr>decider := Some d1\<rparr>;
                       seen = fetch @ [RegisterObservation player_counts]
                   in if fire then
                        (case trigger_shutdown cfg (shutdown_cmd env) m1 of
                           (m2, es, Some e) \<Rightarrow> (m2, seen @ es, Some e)
                         | (m2, es, None) \<Rightarrow> (m2, seen @ es @ [StopEventSet], None))
                      else (m1, seen, None)))))"

text \<open>A sequence of calls of \<open>trigger_shutdown\<close> on one monitor, each with its own
  configuration and command outcome; the effects of the calls are concatenated.\<close>

fun trigger_shutdown_calls ::
  "(Config \<times> error option) list \<Rightarrow> Monitor \<Rightarrow> Monitor \<times> effect list" where
  "trigger_shutdown_calls [] m = (m, [])"
| "trigger_shutdown_calls ((cfg, cmd) # calls) m =
     (case trigger_shutdown cfg cmd m of
        (m1, es, _) \<Rightarrow>
          (case trigger_shutdown_calls calls m1 of (m2, es2) \<Rightarrow> (m2, es @ es2)))"

section \<open>Concrete values\<close>

text \<open>\<open>Config()\<close>: the defaults of the dataclass.\<close>

definition Config_default :: Config where
  "Config_default =
     \<lparr>amp_base_url = [], api_key_alias = ''default'', poll_interval_seconds = 30,
      idle_delay_minutes = 10, global_player_threshold = 0,
      per_instance_thresholds = Map.empty, selected_instances = [],
      maintenance_windows = [], dry_run = True, log_level = ''INFO'', verify_ssl = True\<rparr>"

text \<open>The decider of \<open>test_shutdown_decider_triggers_after_idle\<close>: a delay of one
  minute, threshold 0, last activity at time 0.\<close>

definition idle_decider :: ShutdownDecider where
  "idle_decider =
     \<lparr>state = \<lparr>last_activity = 0, shutdown_triggered = False\<rparr>,
      config = Config_default\<lparr>idle_delay_minutes := 1\<rparr>,
      idle_delta = 60000000\<rparr>"

text \<open>Global threshold 5 with the override \<open>{"mc": 0}\<close>.\<close>

definition override_decider :: ShutdownDecider where
  "override_decider =
     idle_decider\<lparr>config := Config_default\<lparr>global_player_threshold := 5,
       per_instance_thresholds := [''mc'' \<mapsto> 0]\<rparr>\<rparr>"

definition night_window :: MaintenanceWindow where
  "night_window = \<lparr>days = [''*''], start = ''22:00'', end' = ''02:00''\<rparr>"

text \<open>A window that covers the whole day, in a configuration that selects no instance.\<close>

definition all_day_config :: Config where
  "all_day_config =
     Config_default\<lparr>maintenance_windows :=
       [\<lparr>days = [''*''], start = ''00:00'', end' = ''23:59''\<rparr>]\<rparr>"

definition noon_env :: cycle_env where
  "noon_env =
     \<lparr>local_day = ''Mon'', local_time = time_hm 12 0, utc_now = 1000,
      fetch_result = Inr [(''mc'', 0)], shutdown_cmd = None\<rparr>"

definition fresh_monitor :: Monitor where
  "fresh_monitor = \<lparr>decider = Some idle_decider, shutdown_initiated = False\<rparr>"

text \<open>An idle delay one minute beyond the range of \<open>timedelta\<close>.\<close>

definition big_delay_config :: Config where
  "big_delay_config = Config_default\<lparr>idle_delay_minutes := 1440000000000\<rparr>"

text \<open>The same window with one instance selected.\<close>

definition selected_all_day_config :: Config where
  "selected_all_day_config = all_day_config\<lparr>selected_instances := [''mc'']\<rparr>"

text \<open>The defaults with \<open>dry_run\<close> switched off.\<close>

definition live_config :: Config where
  "live_config = Config_default\<lparr>dry_run := False\<rparr>"

section \<open>Properties of the decider\<close>

lemma above_threshold_iff:
  "above_threshold d cs \<longleftrightarrow> (\<exists>(name, count) \<in> set cs. count > threshold_for d name)"
  by (simp add: above_threshold_def list_ex_iff)

lemma not_above_threshold_iff:
  "\<not> above_threshold d cs \<longleftrightarrow> (\<forall>(name, count) \<in> set cs. count \<le> threshold_for d name)"
  by (auto simp: above_threshold_iff)

lemma threshold_for_state_upd [simp]:
  "threshold_for (d\<lparr>state := s\<rparr>) = threshold_for d"
  by (rule ext) (simp add: threshold_for_def split: option.split)

lemma above_threshold_state_upd [simp]:
  "above_threshold (d\<lparr>state := s\<rparr>) cs = above_threshold d cs"
  by (simp add: above_threshold_def)

lemma register_observation_latched:
  assumes "shutdown_triggered (state d)"
    and "\<forall>(name, count) \<in> set counts. count \<le> threshold_for d name"
  shows "register_observation now counts d = (d, False)"
proof -
  from assms(2) have "\<not> above_threshold d counts"
    by (simp add: not_above_threshold_iff)
  with assms(1) show ?thesis
    by (simp add: register_observation_def Let_def)
qed

lemma register_observations_latched:
  assumes "shutdown_triggered (state d)"
    and "\<forall>(now, counts) \<in> set obs. \<forall>(name, count) \<in> set counts. count \<le> threshold_for d name"
  shows "register_observations obs d = (d, replicate (length obs) False)"
  using assms(2)
proof (induction obs)
  case Nil
  then show ?case by simp
next
  case (Cons ob obs)
  obtain now counts where ob: "ob = (now, counts)" by (cases ob)
  from Cons.prems ob
  have "\<forall>(name, count) \<in> set counts. count \<le> threshold_for d name" by simp
  with assms(1) have "register_observation now counts d = (d, False)"
    by (rule register_observation_latched)
  moreover from Cons have "register_observations obs d = (d, replicate (length obs) False)"
    by simp
  ultimately show ?case by (simp add: ob)
qed

text \<open>
  Claim C1. From a decider whose latch is clear, a non-empty observation in which every
  count is at or below its effective threshold, made when \<open>now - last_activity\<close> has
  reached \<open>idle_delta\<close>, sets \<open>shutdown_triggered\<close>, changes nothing else and returns
  \<open>True\<close>. From the decider it leaves, every call whose counts are at or below threshold
  everywhere returns \<open>False\<close> and leaves the decider as it is, whatever the time of the
  call; so over any run of such calls after the first, the results are \<open>True\<close> once and
  then \<open>False\<close> throughout, and the latch stays set. An observation above threshold
  then clears the latch and restarts the idle clock, after which an idle observation
  fires again.
\<close>

theorem register_observation_fires_once:
  assumes latch: "\<not> shutdown_triggered (state d)"
    and nonempty: "player_counts \<noteq> []"
    and below: "\<forall>(name, count) \<in> set player_counts. count \<le> threshold_for d name"
    and idle: "now - last_activity (state d) \<ge> idle_delta d"
  shows "register_observation now player_counts d =
           (d\<lparr>state := (state d)\<lparr>shutdown_triggered := True\<rparr>\<rparr>, True)
         \<and> (\<forall>now' counts'.
               (\<forall>(name, count) \<in> set counts'. count \<le> threshold_for d name) \<longrightarrow>
               register_observation now' counts'
                   (d\<lparr>state := (state d)\<lparr>shutdown_triggered := True\<rparr>\<rparr>)
                 = (d\<lparr>state := (state d)\<lparr>shutdown_triggered := True\<rparr>\<rparr>, False))
         \<and> (\<forall>obs.
               (\<forall>(now', counts') \<in> set obs.
                   \<forall>(name, count) \<in> set counts'. count \<le> threshold_for d name) \<longrightarrow>
               register_observations ((now, player_counts) # obs) d
                 = (d\<lparr>state := (state d)\<lparr>shutdown_triggered := True\<rparr>\<rparr>,
                    True # replicate (length obs) False))
         \<and> (\<forall>now' counts' now'' counts''.
               (\<exists>(name, count) \<in> set counts'. count > threshold_for d name)
               \<and> counts'' \<noteq> []
               \<and> (\<forall>(name, count) \<in> set counts''. count \<le> threshold_for d name)
               \<and> now'' - now' \<ge> idle_delta d \<longrightarrow>
               register_observation now' counts'
                   (d\<lparr>state := (state d)\<lparr>shutdown_triggered := True\<rparr>\<rparr>)
                 = (d\<lparr>state := (state d)\<lparr>last_activity := now',
                                         shutdown_triggered := False\<rparr>\<rparr>, False)
               \<and> snd (register_observation now'' counts''
                        (d\<lparr>state := (state d)\<lparr>last_activity := now',
                                                shutdown_triggered := False\<rparr>\<rparr>)))"
proof -
  let ?d1 = "d\<lparr>state := (state d)\<lparr>shutdown_triggered := True\<rparr>\<rparr>"
  have set1: "shutdown_triggered (state ?d1)" by simp
  from below have na: "\<not> above_threshold d player_counts"
    by (simp add: not_above_threshold_iff)
  with latch nonempty idle
  have first: "register_observation now player_counts d = (?d1, True)"
    by (simp add: register_observation_def)
  have again: "register_observation now' counts' ?d1 = (?d1, False)"
    if "\<forall>(name, count) \<in> set counts'. count \<le> threshold_for d name" for now' counts'
    using set1 by (rule register_observation_latched) (simp add: that)
  have run: "register_observations ((now, player_counts) # obs) d
               = (?d1, True # replicate (length obs) False)"
    if "\<forall>(now', counts') \<in> set obs.
          \<forall>(name, count) \<in> set counts'. count \<le> threshold_for d name" for obs
  proof -
    have "register_observations obs ?d1 = (?d1, replicate (length obs) False)"
      using set1 by (rule register_observations_latched) (simp add: that)
    with first show ?thesis by simp
  qed
  have reset: "register_observation now' counts' ?d1
                 = (d\<lparr>state := (state d)\<lparr>last_activity := now',
                                         shutdown_triggered := False\<rparr>\<rparr>, False)
               \<and> snd (register_observation now'' counts''
                        (d\<lparr>state := (state d)\<lparr>last_activity := now',
                                                shutdown_triggered := False\<rparr>\<rparr>))"
    if up: "\<exists>(name, count) \<in> set counts'. count > threshold_for d name"
      and ne: "counts'' \<noteq> []"
      and low: "\<forall>(name, count) \<in> set counts''. count \<le> threshold_for d name"
      and late: "now'' - now' \<ge> idle_delta d"
    for now' counts' now'' counts''
  proof -
    from up have "above_threshold d counts'" by (simp add: above_threshold_iff)
    moreover from up have "counts' \<noteq> []" by auto
    ultimately have a: "register_observation now' counts' ?d1
        = (d\<lparr>state := (state d)\<lparr>last_activity := now', shutdown_triggered := False\<rparr>\<rparr>, False)"
      by (simp add: register_observation_def)
    from low have "\<not> above_threshold d counts''" by (simp add: not_above_threshold_iff)
    with ne late have "snd (register_observation now'' counts''
        (d\<lparr>state := (state d)\<lparr>last_activity := now', shutdown_triggered := False\<rparr>\<rparr>))"
      by (simp add: register_observation_def)
    with a show ?thesis by simp
  qed
  from first again run reset show ?thesis by blast
qed

theorem register_observation_fires_once_witness:
  "\<not> shutdown_triggered (state idle_decider)
   \<and> (0::int) \<le> threshold_for idle_decider ''instance''
   \<and> (1::int) > threshold_for idle_decider ''instance''
   \<and> (120000000::int) - last_activity (state idle_decider) \<ge> idle_delta idle_decider
   \<and> register_observation 120000000 [(''instance'', 0)] idle_decider
       = (idle_decider\<lparr>state := (state idle_decider)\<lparr>shutdown_triggered := True\<rparr>\<rparr>, True)
   \<and> register_observation 120000001 [(''instance'', 0)]
         (idle_decider\<lparr>state := (state idle_decider)\<lparr>shutdown_triggered := True\<rparr>\<rparr>)
       = (idle_decider\<lparr>state := (state idle_decider)\<lparr>shutdown_triggered := True\<rparr>\<rparr>, False)
   \<and> register_observations
         [(120000000, [(''instance'', 0)]), (120000001, [(''instance'', 0)]),
          (500000000, [(''instance'', 0)]), (900000000, [])] idle_decider
       = (idle_decider\<lparr>state := (state idle_decider)\<lparr>shutdown_triggered := True\<rparr>\<rparr>,
          [True, False, False, False])
   \<and> register_observation 200000000 [(''instance'', 1)]
         (idle_decider\<lparr>state := (state idle_decider)\<lparr>shutdown_triggered := True\<rparr>\<rparr>)
       = (idle_decider\<lparr>state := (state idle_decider)\<lparr>last_activity := 200000000,
                                                      shutdown_triggered := False\<rparr>\<rparr>, False)
   \<and> snd (register_observation 260000000 [(''instance'', 0)]
            (idle_decider\<lparr>state := (state idle_decider)\<lparr>last_activity := 200000000,
                                                         shutdown_triggered := False\<rparr>\<rparr>))"
proof -
  have h1: "\<not> shutdown_triggered (state idle_decider)"
    by (simp add: idle_decider_def)
  have h2: "[(''instance'', 0::int)] \<noteq> []" by simp
  have t: "threshold_for idle_decider ''instance'' = 0"
    by (simp add: threshold_for_def idle_decider_def Config_default_def)
  have h3: "\<forall>(name, count) \<in> set [(''instance'', 0::int)]. count \<le> threshold_for idle_decider name"
    by (simp add: t)
  have h4: "(120000000::int) - last_activity (state idle_decider) \<ge> idle_delta idle_decider"
    by (simp add: idle_decider_def)
  have idl: "idle_delta idle_decider = 60000000"
    by (simp add: idle_decider_def)
  note r = register_observation_fires_once [OF h1 h2 h3 h4]
  note r1 = r [THEN conjunct1]
  note r2 = r [THEN conjunct2, THEN conjunct1, THEN spec, THEN spec, THEN mp]
  note r3 = r [THEN conjunct2, THEN conjunct2, THEN conjunct1, THEN spec, THEN mp]
  note r4 = r [THEN conjunct2, THEN conjunct2, THEN conjunct2,
      THEN spec, THEN spec, THEN spec, THEN spec, THEN mp]
  have a: "register_observation 120000001 [(''instance'', 0)]
         (idle_decider\<lparr>state := (state idle_decider)\<lparr>shutdown_triggered := True\<rparr>\<rparr>)
       = (idle_decider\<lparr>state := (state idle_decider)\<lparr>shutdown_triggered := True\<rparr>\<rparr>, False)"
    by (rule r2) (simp add: t)
  have "register_observations
         ((120000000, [(''instance'', 0)]) #
          [(120000001, [(''instance'', 0)]), (500000000, [(''instance'', 0)]), (900000000, [])])
         idle_decider
       = (idle_decider\<lparr>state := (state idle_decider)\<lparr>shutdown_triggered := True\<rparr>\<rparr>,
          True # replicate
            (length [(120000001::int, [(''instance'', 0::int)]),
                     (500000000, [(''instance'', 0)]), (900000000, [])]) False)"
    by (rule r3) (simp add: t)
  then have b: "register_observations
         [(120000000, [(''instance'', 0)]), (120000001, [(''instance'', 0)]),
          (500000000, [(''instance'', 0)]), (900000000, [])] idle_decider
       = (idle_decider\<lparr>state := (state idle_decider)\<lparr>shutdown_triggered := True\<rparr>\<rparr>,
          [True, False, False, False])"
    by (simp add: numeral_3_eq_3)
  have c: "register_observation 200000000 [(''instance'', 1)]
         (idle_decider\<lparr>state := (state idle_decider)\<lparr>shutdown_triggered := True\<rparr>\<rparr>)
       = (idle_decider\<lparr>state := (state idle_decider)\<lparr>last_activity := 200000000,
                                                      shutdown_triggered := False\<rparr>\<rparr>, False)
     \<and> snd (register_observation 260000000 [(''instance'', 0)]
            (idle_decider\<lparr>state := (state idle_decider)\<lparr>last_activity := 200000000,
                                                         shutdown_triggered := False\<rparr>\<rparr>))"
    by (rule r4) (simp add: t idl)
  from h1 h4 t r1 a b c show ?thesis by simp
qed

text \<open>
  Claim C2. An observation with at least one count strictly above its effective threshold
  returns \<open>False\<close>, sets \<open>last_activity\<close> to the time of the observation and clears
  \<open>shutdown_triggered\<close>, from every decider state.
\<close>

theorem register_observation_activity_resets:
  assumes "\<exists>(name, count) \<in> set player_counts. count > threshold_for d name"
  shows "register_observation now player_counts d =
           (d\<lparr>state := (state d)\<lparr>last_activity := now, shutdown_triggered := False\<rparr>\<rparr>, False)"
proof -
  from assms have "above_threshold d player_counts"
    by (simp add: above_threshold_iff)
  moreover from assms have "player_counts \<noteq> []" by auto
  ultimately show ?thesis by (simp add: register_observation_def)
qed

theorem register_observation_activity_resets_witness:
  "(1::int) > threshold_for idle_decider ''instance''
   \<and> \<not> snd (register_observation 777 [(''instance'', 1)] idle_decider)
   \<and> last_activity (state (fst (register_observation 777 [(''instance'', 1)] idle_decider))) = 777
   \<and> \<not> shutdown_triggered (state (fst (register_observation 777 [(''instance'', 1)] idle_decider)))"
proof -
  have t: "threshold_for idle_decider ''instance'' = 0"
    by (simp add: threshold_for_def idle_decider_def Config_default_def)
  have h: "\<exists>(name, count) \<in> set [(''instance'', 1::int)]. count > threshold_for idle_decider name"
    by (simp add: t)
  from register_observation_activity_resets [OF h, of 777] t show ?thesis by simp
qed

text \<open>
  Claim C3. \<open>update_config\<close> leaves \<open>last_activity\<close> and \<open>shutdown_triggered\<close> as they
  were; the configuration becomes the new one and no field other than \<open>config\<close> and
  \<open>idle_delta\<close> changes.
\<close>

theorem update_config_keeps_state:
  "state (fst (update_config cfg d)) = state d
   \<and> last_activity (state (fst (update_config cfg d))) = last_activity (state d)
   \<and> shutdown_triggered (state (fst (update_config cfg d))) = shutdown_triggered (state d)
   \<and> config (fst (update_config cfg d)) = cfg
   \<and> fst (update_config cfg d) =
       d\<lparr>config := cfg, idle_delta := idle_delta (fst (update_config cfg d))\<rparr>"
  by (simp add: update_config_def Let_def split: sum.split)

text \<open>
  Claim C9. An empty observation returns \<open>False\<close> and leaves the decider, hence
  \<open>last_activity\<close> and \<open>shutdown_triggered\<close>, unchanged.
\<close>

theorem register_observation_empty:
  "register_observation now [] d = (d, False)"
  by (simp add: register_observation_def)

section \<open>The effective threshold and the idle delay\<close>

text \<open>
  Claim C8. The effective threshold of an instance is its entry of
  \<open>per_instance_thresholds\<close> when there is one and \<open>global_player_threshold\<close>
  otherwise; an observation is above threshold exactly when some count is strictly
  greater than its effective threshold, so a count equal to the threshold is not activity
  and does not move \<open>last_activity\<close>, while one more is. With global threshold 5 and the
  override \<open>{"mc": 0}\<close> the observation \<open>{"mc": 1}\<close> is above threshold.
\<close>

theorem threshold_override_and_strict:
  "(per_instance_thresholds (config d) i = Some t \<longrightarrow> threshold_for d i = t)
   \<and> (per_instance_thresholds (config d) i = None \<longrightarrow>
        threshold_for d i = global_player_threshold (config d))
   \<and> (above_threshold d cs \<longleftrightarrow> (\<exists>(name, count) \<in> set cs. count > threshold_for d name))
   \<and> \<not> above_threshold d [(i, threshold_for d i)]
   \<and> last_activity (state (fst (register_observation now [(i, threshold_for d i)] d)))
        = last_activity (state d)
   \<and> above_threshold d [(i, threshold_for d i + 1)]
   \<and> above_threshold
        (d\<lparr>config := (config d)\<lparr>global_player_threshold := 5,
                                 per_instance_thresholds := [''mc'' \<mapsto> 0]\<rparr>\<rparr>)
        [(''mc'', 1)]"
  by (simp add: threshold_for_def above_threshold_iff register_observation_def above_threshold_def Let_def)

theorem threshold_override_and_strict_witness:
  "per_instance_thresholds (config override_decider) ''mc'' = Some 0
   \<and> threshold_for override_decider ''mc'' = 0
   \<and> per_instance_thresholds (config override_decider) ''other'' = None
   \<and> global_player_threshold (config override_decider) = 5
   \<and> threshold_for override_decider ''other'' = 5
   \<and> above_threshold override_decider [(''mc'', 1)]
   \<and> \<not> above_threshold override_decider [(''mc'', 0)]
   \<and> \<not> above_threshold override_decider [(''other'', 5)]"
proof -
  have p1: "per_instance_thresholds (config override_decider) ''mc'' = Some 0"
    and p2: "per_instance_thresholds (config override_decider) ''other'' = None"
    and g: "global_player_threshold (config override_decider) = 5"
    by (simp_all add: override_decider_def idle_decider_def Config_default_def)
  note r = threshold_override_and_strict [of override_decider]
  from p1 r [of "''mc''" 0] have t1: "threshold_for override_decider ''mc'' = 0"
    by blast
  from p2 g r [of "''other''"] have t2: "threshold_for override_decider ''other'' = 5"
    by simp
  from r [of "''mc''"] t1 have a1: "above_threshold override_decider [(''mc'', 1)]"
    and a2: "\<not> above_threshold override_decider [(''mc'', 0)]" by simp_all
  from r [of "''other''"] t2 have a3: "\<not> above_threshold override_decider [(''other'', 5)]"
    by simp
  from p1 p2 g t1 t2 a1 a2 a3 show ?thesis by simp
qed

lemma timedelta_minutes_in_range:
  assumes "1 \<le> m" "m \<le> 1439999999999"
  shows "timedelta_minutes m = Inr (m * 60000000)"
proof -
  from assms have "0 \<le> (m * 60) div 86400" by simp
  moreover from assms have "(m * 60) div 86400 \<le> 999999999" by simp
  ultimately show ?thesis by (simp add: timedelta_minutes_def)
qed

lemma timedelta_minutes_overflow:
  assumes "m > 1439999999999"
  shows "timedelta_minutes (max 1 m) = Inl OverflowError"
proof -
  from assms have "(max 1 m * 60) div 86400 \<ge> 1000000000" by simp
  then show ?thesis by (simp add: timedelta_minutes_def)
qed

text \<open>
  Claim C10, within the range of \<open>timedelta\<close>. For an \<open>idle_delay_minutes\<close> of at most
  1439999999999, zero and negative values included, \<open>update_config\<close> sets \<open>idle_delta\<close>
  to \<open>max(1, idle_delay_minutes)\<close> minutes; for a larger value \<open>timedelta\<close> raises
  \<open>OverflowError\<close> and the previous delay stays. Either way a delay of at least one
  minute results when the value is in range or the old delay was at least one minute, and
  then \<open>register_observation\<close> returns \<open>True\<close> only after an idle period of at least one
  minute.
\<close>

theorem update_config_idle_delta:
  "(idle_delay_minutes cfg \<le> 1439999999999 \<longrightarrow>
      update_config cfg d =
        (d\<lparr>config := cfg, idle_delta := max 1 (idle_delay_minutes cfg) * 60000000\<rparr>, None))
   \<and> (idle_delay_minutes cfg > 1439999999999 \<longrightarrow>
        update_config cfg d = (d\<lparr>config := cfg\<rparr>, Some OverflowError))
   \<and> (idle_delay_minutes cfg \<le> 1439999999999 \<or> idle_delta d \<ge> 60000000 \<longrightarrow>
        idle_delta (fst (update_config cfg d)) \<ge> 60000000
        \<and> (\<forall>now cs. snd (register_observation now cs (fst (update_config cfg d)))
              \<longrightarrow> now - last_activity (state d) \<ge> 60000000))"
proof -
  let ?m = "max 1 (idle_delay_minutes cfg)"
  let ?d1 = "d\<lparr>config := cfg, idle_delta := ?m * 60000000\<rparr>"
  let ?d2 = "fst (update_config cfg d)"
  have small: "update_config cfg d = (?d1, None)"
    if "idle_delay_minutes cfg \<le> 1439999999999"
  proof -
    from that have "timedelta_minutes ?m = Inr (?m * 60000000)"
      by (intro timedelta_minutes_in_range) simp_all
    then show ?thesis by (simp add: update_config_def)
  qed
  have big: "update_config cfg d = (d\<lparr>config := cfg\<rparr>, Some OverflowError)"
    if "idle_delay_minutes cfg > 1439999999999"
  proof -
    from that have "timedelta_minutes ?m = Inl OverflowError"
      by (rule timedelta_minutes_overflow)
    then show ?thesis by (simp add: update_config_def)
  qed
  have ge: "idle_delta ?d2 \<ge> 60000000"
    if "idle_delay_minutes cfg \<le> 1439999999999 \<or> idle_delta d \<ge> 60000000"
  proof (cases "idle_delay_minutes cfg \<le> 1439999999999")
    case True
    then show ?thesis by (simp add: small)
  next
    case False
    with that big show ?thesis by simp
  qed
  have armed: "now - last_activity (state d) \<ge> 60000000"
    if h: "idle_delay_minutes cfg \<le> 1439999999999 \<or> idle_delta d \<ge> 60000000"
      and fire: "snd (register_observation now cs ?d2)" for now cs
  proof -
    from fire have "now - last_activity (state ?d2) \<ge> idle_delta ?d2"
      by (simp add: register_observation_def Let_def split: if_splits)
    moreover have "state ?d2 = state d"
      by (simp add: update_config_def Let_def split: sum.split)
    ultimately show ?thesis using ge [OF h] by simp
  qed
  from small big ge armed show ?thesis by blast
qed

theorem update_config_idle_delta_witness:
  "idle_delay_minutes (Config_default\<lparr>idle_delay_minutes := - 5\<rparr>) \<le> 1439999999999
   \<and> update_config (Config_default\<lparr>idle_delay_minutes := - 5\<rparr>) (idle_decider\<lparr>idle_delta := 0\<rparr>)
       = (idle_decider\<lparr>config := Config_default\<lparr>idle_delay_minutes := - 5\<rparr>,
                       idle_delta := 60000000\<rparr>, None)
   \<and> idle_delay_minutes big_delay_config > 1439999999999
   \<and> idle_delta idle_decider \<ge> 60000000
   \<and> update_config big_delay_config idle_decider
       = (idle_decider\<lparr>config := big_delay_config\<rparr>, Some OverflowError)
   \<and> idle_delta (fst (update_config big_delay_config idle_decider)) \<ge> 60000000"
proof -
  have h: "idle_delay_minutes (Config_default\<lparr>idle_delay_minutes := - 5\<rparr>) \<le> 1439999999999"
    by simp
  have b: "idle_delay_minutes big_delay_config > 1439999999999"
    by (simp add: big_delay_config_def)
  have i: "idle_delta idle_decider \<ge> 60000000"
    by (simp add: idle_decider_def)
  from update_config_idle_delta [of "Config_default\<lparr>idle_delay_minutes := - 5\<rparr>"
      "idle_decider\<lparr>idle_delta := 0\<rparr>"] h
  have a: "update_config (Config_default\<lparr>idle_delay_minutes := - 5\<rparr>) (idle_decider\<lparr>idle_delta := 0\<rparr>)
       = (idle_decider\<lparr>config := Config_default\<lparr>idle_delay_minutes := - 5\<rparr>,
                       idle_delta := 60000000\<rparr>, None)"
    by (simp add: idle_decider_def)
  from update_config_idle_delta [of big_delay_config idle_decider] b i
  have c: "update_config big_delay_config idle_decider
       = (idle_decider\<lparr>config := big_delay_config\<rparr>, Some OverflowError)"
    and e: "idle_delta (fst (update_config big_delay_config idle_decider)) \<ge> 60000000"
    by simp_all
  from h a b i c e show ?thesis by simp
qed

text \<open>
  C10 for every configuration does not hold: with \<open>idle_delay_minutes = 1440000000000\<close>
  the call raises \<open>OverflowError\<close> and \<open>idle_delta\<close> is not \<open>max(1, idle_delay_minutes)\<close>
  minutes.
\<close>

theorem update_config_overflow_counterexample:
  "update_config big_delay_config idle_decider =
     (idle_decider\<lparr>config := big_delay_config\<rparr>, Some OverflowError)
   \<and> idle_delta (fst (update_config big_delay_config idle_decider))
       \<noteq> max 1 (idle_delay_minutes big_delay_config) * 60000000"
  by (simp add: update_config_def timedelta_minutes_def big_delay_config_def
      Config_default_def idle_decider_def)

section \<open>Maintenance windows\<close>

lemma strptime_2200: "strptime_HM ''22:00'' = Inr (time_hm 22 0)"
  by code_simp

lemma strptime_0200: "strptime_HM ''02:00'' = Inr (time_hm 2 0)"
  by code_simp

lemma strptime_2500: "strptime_HM ''25:00'' = Inl ValueError"
  by code_simp

lemma time_le_total: "time_le a b \<or> time_le b a"
  by (auto simp: time_le_def)

lemma time_le_refl: "time_le a a"
  by (simp add: time_le_def)

lemma time_le_trans: "time_le a b \<Longrightarrow> time_le b c \<Longrightarrow> time_le a c"
  by (auto simp: time_le_def)

lemma time_le_antisym:
  fixes a b :: time
  shows "time_le a b \<Longrightarrow> time_le b a \<Longrightarrow> a = b"
  by (auto simp: time_le_def)

lemma digit_val_le_9: "is_digit c \<Longrightarrow> digit_val c \<le> 9"
  by (auto simp: is_digit_def digit_val_def)

lemma hour_matches_bound: "(h, r) \<in> set (hour_matches s) \<Longrightarrow> h < 24"
  by (auto simp: hour_matches_def digit_val_def is_digit_def split: list.splits if_splits)

lemma minute_matches_bound: "(m, r) \<in> set (minute_matches s) \<Longrightarrow> m < 60"
  by (auto simp: minute_matches_def digit_val_def is_digit_def split: list.splits if_splits)

lemma strptime_HM_wellformed:
  assumes "strptime_HM s = Inr t"
  shows "hour t < 24 \<and> minute t < 60 \<and> second t = 0 \<and> microsecond t = 0"
proof -
  let ?xs = "concat (map (\<lambda>(h, r). map (\<lambda>(m, rest). (h, m, rest)) (colon_then_minute r))
                       (hour_matches s))"
  from assms obtain h m ys where xs: "?xs = (h, m, []) # ys" and t: "t = time_hm h m"
    by (auto simp: strptime_HM_def split: list.splits if_splits)
  then have "(h, m, []) \<in> set ?xs" by simp
  then obtain r where "(h, r) \<in> set (hour_matches s)" "(m, []) \<in> set (colon_then_minute r)"
    by auto
  then have "h < 24" "m < 60"
    by (auto simp: colon_then_minute_def split: list.splits if_splits
        dest: hour_matches_bound minute_matches_bound)
  with t show ?thesis by (simp add: time_hm_def)
qed

text \<open>
  Claim C5. When the start or the end string does not parse, \<open>time_in_window\<close> is
  \<open>False\<close>. When both parse: if start \<open>\<le>\<close> end, the result is
  \<open>start \<le> current \<le> end\<close>, both ends included; otherwise (start after end, by
  \<open>time_le_total\<close>) it is \<open>current \<ge> start or current \<le> end\<close>.
\<close>

theorem time_in_window_cases:
  "(strptime_HM start_s = Inl e \<or> strptime_HM end_s = Inl e \<longrightarrow>
      \<not> time_in_window current start_s end_s)
   \<and> (strptime_HM start_s = Inr st \<and> strptime_HM end_s = Inr et \<longrightarrow>
        (time_le st et \<longrightarrow>
           (time_in_window current start_s end_s \<longleftrightarrow> time_le st current \<and> time_le current et))
      \<and> (\<not> time_le st et \<longrightarrow>
           (time_in_window current start_s end_s \<longleftrightarrow> time_le st current \<or> time_le current et)))"
  by (auto simp: time_in_window_def split: sum.splits)

theorem time_in_window_cases_witness:
  "strptime_HM ''22:00'' = Inr (time_hm 22 0) \<and> strptime_HM ''02:00'' = Inr (time_hm 2 0)
   \<and> \<not> time_le (time_hm 22 0) (time_hm 2 0)
   \<and> time_le (time_hm 22 0) (time_hm 23 0)
   \<and> time_in_window (time_hm 23 0) ''22:00'' ''02:00''
   \<and> time_le (time_hm 2 0) (time_hm 22 0)
   \<and> \<not> time_in_window (time_hm 23 0) ''02:00'' ''22:00''
   \<and> time_in_window (time_hm 22 0) ''02:00'' ''22:00''
   \<and> strptime_HM ''25:00'' = Inl ValueError
   \<and> \<not> time_in_window (time_hm 23 0) ''25:00'' ''02:00''
   \<and> \<not> time_in_window (time_hm 23 0) ''22:00'' ''25:00''"
proof -
  have l1: "\<not> time_le (time_hm 22 0) (time_hm 2 0)"
    and l2: "time_le (time_hm 22 0) (time_hm 23 0)"
    and l3: "time_le (time_hm 2 0) (time_hm 22 0)"
    and l4: "\<not> time_le (time_hm 23 0) (time_hm 22 0)"
    and l5: "time_le (time_hm 22 0) (time_hm 22 0)"
    by (simp_all add: time_le_def time_hm_def)
  from time_in_window_cases [of "''22:00''" _ "''02:00''" "time_hm 23 0" "time_hm 22 0" "time_hm 2 0"]
    strptime_2200 strptime_0200 l1 l2
  have w1: "time_in_window (time_hm 23 0) ''22:00'' ''02:00''" by simp
  from time_in_window_cases [of "''02:00''" _ "''22:00''" "time_hm 23 0" "time_hm 2 0" "time_hm 22 0"]
    strptime_2200 strptime_0200 l3 l4
  have w2: "\<not> time_in_window (time_hm 23 0) ''02:00'' ''22:00''" by simp
  from time_in_window_cases [of "''02:00''" _ "''22:00''" "time_hm 22 0" "time_hm 2 0" "time_hm 22 0"]
    strptime_2200 strptime_0200 l3 l5
  have w3: "time_in_window (time_hm 22 0) ''02:00'' ''22:00''" by simp
  from time_in_window_cases [of "''25:00''" ValueError "''02:00''" "time_hm 23 0"] strptime_2500
  have w4: "\<not> time_in_window (time_hm 23 0) ''25:00'' ''02:00''" by simp
  from time_in_window_cases [of "''22:00''" ValueError "''25:00''" "time_hm 23 0"] strptime_2500
  have w5: "\<not> time_in_window (time_hm 23 0) ''22:00'' ''25:00''" by simp
  from strptime_2200 strptime_0200 strptime_2500 l1 l2 l3 w1 w2 w3 w4 w5 show ?thesis by simp
qed

lemma night_window_times:
  "time_in_window (time_hm 23 0) ''22:00'' ''02:00''"
  "\<not> time_in_window (time_hm 3 0) ''22:00'' ''02:00''"
  "\<not> time_in_window (time_hm 15 0) ''22:00'' ''02:00''"
  "time_in_window (time_hm 1 0) ''22:00'' ''02:00''"
  by (simp_all add: time_in_window_def strptime_2200 strptime_0200 time_le_def time_hm_def)

lemma lower_star: "lower ''*'' = ''*''"
  by (simp add: lower_def lower_char_def)

lemma night_window_in_maintenance_window:
  "in_maintenance_window (cfg\<lparr>maintenance_windows := [night_window]\<rparr>) day t
     = time_in_window t ''22:00'' ''02:00''"
  by (simp add: in_maintenance_window_def night_window_def lower_star)

lemma night_window_fields: "start night_window = ''22:00''" "end' night_window = ''02:00''"
  by (simp_all add: night_window_def)

text \<open>
  Claim C4, evaluated on the code. For the window with days \<open>["*"]\<close>, start \<open>"22:00"\<close>
  and end \<open>"02:00"\<close>, on any day and in any configuration holding just this window:
  23:00 is inside and 15:00 is outside, as the claim says; at 03:00 the code answers
  \<open>False\<close>, where the claim and \<open>test_time_window_wraparound\<close> expect \<open>True\<close>.
\<close>

theorem night_window_membership:
  "in_maintenance_window (cfg\<lparr>maintenance_windows := [night_window]\<rparr>) day (time_hm 23 0)
   \<and> \<not> in_maintenance_window (cfg\<lparr>maintenance_windows := [night_window]\<rparr>) day (time_hm 3 0)
   \<and> \<not> in_maintenance_window (cfg\<lparr>maintenance_windows := [night_window]\<rparr>) day (time_hm 15 0)
   \<and> time_in_window (time_hm 23 0) (start night_window) (end' night_window)
   \<and> \<not> time_in_window (time_hm 3 0) (start night_window) (end' night_window)
   \<and> \<not> time_in_window (time_hm 15 0) (start night_window) (end' night_window)"
  by (simp add: night_window_in_maintenance_window night_window_fields night_window_times)

text \<open>
  The call of the test, \<open>_time_in_window(time(3, 0), "22:00", "02:00")\<close>, and the same
  time through \<open>in_maintenance_window\<close> on a Monday: 03:00 is neither at or after 22:00
  nor at or before 02:00.
\<close>

theorem night_window_0300_outside:
  "\<not> in_maintenance_window (Config_default\<lparr>maintenance_windows := [night_window]\<rparr>)
        ''Mon'' (time_hm 3 0)
   \<and> \<not> time_in_window (time_hm 3 0) ''22:00'' ''02:00''"
  by (simp add: night_window_in_maintenance_window night_window_times)

section \<open>The polling cycle and the shutdown command\<close>

lemma strptime_0000: "strptime_HM ''00:00'' = Inr (time_hm 0 0)"
  by code_simp

lemma strptime_2359: "strptime_HM ''23:59'' = Inr (time_hm 23 59)"
  by code_simp

lemma all_day_noon:
  "in_maintenance_window (all_day_config\<lparr>selected_instances := sel\<rparr>) day (time_hm 12 0)"
  by (simp add: in_maintenance_window_def all_day_config_def Config_default_def lower_star
      time_in_window_def strptime_0000 strptime_2359 time_le_def time_hm_def)

text \<open>
  Claim C6, for a cycle that reaches the window check. When the local time lies in a
  matching maintenance window: if at least one instance is selected and the monitor has a
  decider, the cycle sets the decider's \<open>last_activity\<close> to the UTC clock and does
  nothing else; and in every case the cycle has no effect (no fetch of player counts, no
  call of the decider, no shutdown command, no stop), raises nothing, and leaves
  \<open>shutdown_initiated\<close> and the decider's latch as they were.
\<close>

theorem poll_once_in_maintenance_window:
  assumes "in_maintenance_window cfg (local_day env) (local_time env)"
  shows "(selected_instances cfg \<noteq> [] \<and> decider m = Some d \<longrightarrow>
            poll_once cfg env m =
              (m\<lparr>decider := Some (d\<lparr>state := (state d)\<lparr>last_activity := utc_now env\<rparr>\<rparr>)\<rparr>,
               [], None))
         \<and> fst (snd (poll_once cfg env m)) = []
         \<and> snd (snd (poll_once cfg env m)) = None
         \<and> shutdown_initiated (fst (poll_once cfg env m)) = shutdown_initiated m
         \<and> map_option (\<lambda>d. shutdown_triggered (state d)) (decider (fst (poll_once cfg env m)))
             = map_option (\<lambda>d. shutdown_triggered (state d)) (decider m)"
  using assms by (simp add: poll_once_def split: option.split)

theorem poll_once_in_maintenance_window_witness:
  "in_maintenance_window selected_all_day_config (local_day noon_env) (local_time noon_env)
   \<and> selected_instances selected_all_day_config \<noteq> []
   \<and> decider fresh_monitor = Some idle_decider
   \<and> poll_once selected_all_day_config noon_env fresh_monitor =
       (fresh_monitor\<lparr>decider :=
          Some (idle_decider\<lparr>state := (state idle_decider)\<lparr>last_activity := 1000\<rparr>\<rparr>)\<rparr>,
        [], None)"
proof -
  have h: "in_maintenance_window selected_all_day_config (local_day noon_env) (local_time noon_env)"
    using all_day_noon [of "[''mc'']" "''Mon''"]
    by (simp add: noon_env_def selected_all_day_config_def)
  have s: "selected_instances selected_all_day_config \<noteq> []"
    by (simp add: selected_all_day_config_def)
  have d: "decider fresh_monitor = Some idle_decider"
    by (simp add: fresh_monitor_def)
  have u: "utc_now noon_env = 1000" by (simp add: noon_env_def)
  from poll_once_in_maintenance_window [OF h, of fresh_monitor idle_decider] s d u
  have "poll_once selected_all_day_config noon_env fresh_monitor =
       (fresh_monitor\<lparr>decider :=
          Some (idle_decider\<lparr>state := (state idle_decider)\<lparr>last_activity := 1000\<rparr>\<rparr>)\<rparr>,
        [], None)" by simp
  with h s d show ?thesis by simp
qed

text \<open>
  C6 for every cycle inside a window does not hold: with no instance selected the cycle
  returns before the window check, and \<open>last_activity\<close> keeps its old value.
\<close>

theorem poll_once_empty_selection_counterexample:
  "in_maintenance_window all_day_config (local_day noon_env) (local_time noon_env)
   \<and> decider fresh_monitor = Some idle_decider
   \<and> poll_once all_day_config noon_env fresh_monitor = (fresh_monitor, [], None)
   \<and> last_activity (state idle_decider) \<noteq> utc_now noon_env"
proof -
  have "in_maintenance_window all_day_config (local_day noon_env) (local_time noon_env)"
    using all_day_noon [of "[]" "''Mon''"]
    by (simp add: noon_env_def all_day_config_def Config_default_def)
  moreover have "poll_once all_day_config noon_env fresh_monitor = (fresh_monitor, [], None)"
    by (simp add: poll_once_def all_day_config_def Config_default_def)
  ultimately show ?thesis
    by (simp add: fresh_monitor_def idle_decider_def noon_env_def)
qed

lemma trigger_shutdown_initiated:
  "shutdown_initiated m \<Longrightarrow> trigger_shutdown cfg cmd m = (m, [], None)"
  by (simp add: trigger_shutdown_def)

lemma trigger_shutdown_sets_flag:
  "shutdown_initiated (fst (trigger_shutdown cfg cmd m))"
  by (simp add: trigger_shutdown_def Let_def split: option.split)

lemma trigger_shutdown_effects:
  "fst (snd (trigger_shutdown cfg cmd m)) = [] \<or>
   fst (snd (trigger_shutdown cfg cmd m)) = [RunShutdownCommand]"
  by (simp add: trigger_shutdown_def Let_def split: option.split)

lemma trigger_shutdown_calls_initiated:
  "shutdown_initiated m \<Longrightarrow> trigger_shutdown_calls calls m = (m, [])"
  by (induction calls) (auto simp: trigger_shutdown_initiated)

lemma calls_run_command_le_one:
  "length (filter (\<lambda>e. e = RunShutdownCommand) (snd (trigger_shutdown_calls calls m))) \<le> 1"
proof (cases calls)
  case Nil
  then show ?thesis by simp
next
  case (Cons c rest)
  obtain cfg cmd where c: "c = (cfg, cmd)" by (cases c)
  obtain m1 es err where t: "trigger_shutdown cfg cmd m = (m1, es, err)"
    by (cases "trigger_shutdown cfg cmd m")
  from trigger_shutdown_sets_flag [of cfg cmd m] t have "shutdown_initiated m1" by simp
  then have rest: "trigger_shutdown_calls rest m1 = (m1, [])"
    by (rule trigger_shutdown_calls_initiated)
  from trigger_shutdown_effects [of cfg cmd m] t have "es = [] \<or> es = [RunShutdownCommand]"
    by simp
  with Cons c t rest show ?thesis by auto
qed

text \<open>
  Claim C7. Over any sequence of calls of \<open>trigger_shutdown\<close> on a monitor, the shutdown
  command runs at most once; once \<open>shutdown_initiated\<close> is set, a call changes nothing
  and has no effect, and so does every sequence of calls; every call leaves the flag set;
  and a call with \<open>dry_run\<close> never runs the command.
\<close>

theorem trigger_shutdown_at_most_once:
  "length (filter (\<lambda>e. e = RunShutdownCommand) (snd (trigger_shutdown_calls calls m))) \<le> 1
   \<and> (shutdown_initiated m \<longrightarrow> trigger_shutdown cfg cmd m = (m, [], None))
   \<and> (shutdown_initiated m \<longrightarrow> trigger_shutdown_calls calls m = (m, []))
   \<and> shutdown_initiated (fst (trigger_shutdown cfg cmd m))
   \<and> (dry_run cfg \<longrightarrow> fst (snd (trigger_shutdown cfg cmd m)) = [])"
proof (intro conjI impI)
  show "length (filter (\<lambda>e. e = RunShutdownCommand) (snd (trigger_shutdown_calls calls m))) \<le> 1"
    by (rule calls_run_command_le_one)
  show "trigger_shutdown cfg cmd m = (m, [], None)" if "shutdown_initiated m"
    using that by (rule trigger_shutdown_initiated)
  show "trigger_shutdown_calls calls m = (m, [])" if "shutdown_initiated m"
    using that by (rule trigger_shutdown_calls_initiated)
  show "shutdown_initiated (fst (trigger_shutdown cfg cmd m))"
    by (rule trigger_shutdown_sets_flag)
  show "fst (snd (trigger_shutdown cfg cmd m)) = []" if "dry_run cfg"
    using that by (simp add: trigger_shutdown_def)
qed

theorem trigger_shutdown_at_most_once_witness:
  "snd (trigger_shutdown_calls [(live_config, None), (live_config, None), (Config_default, None)]
          fresh_monitor) = [RunShutdownCommand]
   \<and> shutdown_initiated (fst (trigger_shutdown live_config None fresh_monitor))
   \<and> trigger_shutdown live_config None (fst (trigger_shutdown live_config None fresh_monitor))
       = (fst (trigger_shutdown live_config None fresh_monitor), [], None)
   \<and> dry_run Config_default
   \<and> fst (snd (trigger_shutdown Config_default None fresh_monitor)) = []"
proof -
  note r = trigger_shutdown_at_most_once
  have e1: "trigger_shutdown live_config None fresh_monitor =
      (fresh_monitor\<lparr>shutdown_initiated := True\<rparr>, [RunShutdownCommand], None)"
    by (simp add: trigger_shutdown_def live_config_def Config_default_def fresh_monitor_def)
  from r [of "[]" fresh_monitor live_config None]
  have f: "shutdown_initiated (fst (trigger_shutdown live_config None fresh_monitor))" by simp
  from r [of "[]" "fst (trigger_shutdown live_config None fresh_monitor)" live_config None] f
  have n: "trigger_shutdown live_config None (fst (trigger_shutdown live_config None fresh_monitor))
       = (fst (trigger_shutdown live_config None fresh_monitor), [], None)" by simp
  have dr: "dry_run Config_default" by (simp add: Config_default_def)
  from r [of "[]" fresh_monitor Config_default None] dr
  have q: "fst (snd (trigger_shutdown Config_default None fresh_monitor)) = []" by simp
  from r [of "[(live_config, None), (Config_default, None)]"
      "fresh_monitor\<lparr>shutdown_initiated := True\<rparr>"]
  have "trigger_shutdown_calls [(live_config, None), (Config_default, None)]
      (fresh_monitor\<lparr>shutdown_initiated := True\<rparr>) = (fresh_monitor\<lparr>shutdown_initiated := True\<rparr>, [])"
    by simp
  with e1 have s: "snd (trigger_shutdown_calls
      [(live_config, None), (live_config, None), (Config_default, None)] fresh_monitor)
      = [RunShutdownCommand]" by simp
  from s f n dr q show ?thesis by simp
qed

end
